theory Spec2Isabelle
  imports Complex_Main
begin

section \<open>The terminal clicker game (\<^verbatim>\<open>src/clicker-game.ts\<close>)\<close>

text \<open>
  The program keeps one global \<^verbatim>\<open>gameState\<close> object and mutates it in place. The
  embedding passes that state explicitly: every function of the source that writes to
  \<^verbatim>\<open>gameState\<close> takes the state and returns the new one.

  Numbers. A TypeScript \<^verbatim>\<open>number\<close> is an IEEE-754 double. The embedding reads the
  fields \<^verbatim>\<open>points\<close>, \<^verbatim>\<open>totalPointsEarned\<close>, \<^verbatim>\<open>clickPower\<close>, the costs and the
  multipliers as exact real numbers, as section 3 of the specification does
  (``real number''): \<open>+\<close>, \<open>-\<close>, \<open>*\<close> and \<open>/\<close> are the exact operations, so rounding
  to 53 bits, \<^verbatim>\<open>NaN\<close> and the infinities are outside this model. \<^verbatim>\<open>count\<close> starts at
  0 and is only ever incremented, so it is a natural number; array indices are natural
  numbers too.

  Objects. \<^verbatim>\<open>const building = gameState.buildings[index]\<close> is a reference into the
  array, so \<^verbatim>\<open>building.count++\<close> is an update of the array at \<open>index\<close>. The
  building and upgrade objects of the initial state are pairwise distinct, and so are
  the objects \<^verbatim>\<open>JSON.parse\<close> builds, so no two positions alias and a list of records
  is a faithful store.

  Left out. The command interpreter \<^verbatim>\<open>handleInput\<close> only dispatches a line of input
  to the functions modelled here, and \<^verbatim>\<open>displayStatus\<close> only prints the state.
\<close>

subsection \<open>Data model\<close>

record Upgrade =
  name :: string
  purchased :: bool
  cost :: real
  productionMultiplier :: real
  description :: string

record Building =
  name :: string
  count :: nat
  baseCost :: real
  baseProduction :: real
  upgrades :: "Upgrade list"

record GameState =
  points :: real
  totalPointsEarned :: real
  clickPower :: real
  buildings :: "Building list"
  lastSaved :: real

text \<open>
  The initial state of the source (lines 30-103). \<^verbatim>\<open>lastSaved\<close> is \<^verbatim>\<open>Date.now()\<close> at
  start-up, the parameter \<open>now\<close>.
\<close>

definition initialGameState :: "real \<Rightarrow> GameState" where
  "initialGameState now =
    \<lparr> points = 0,
      totalPointsEarned = 0,
      clickPower = 1,
      buildings =
        [ \<lparr> name = ''Cursor'', count = 0, baseCost = 15, baseProduction = 1 / 10,
            upgrades =
              [ \<lparr> Upgrade.name = ''Faster Clicking'', purchased = False, cost = 100,
                  productionMultiplier = 2,
                  description = ''Double the production of Cursors'' \<rparr>,
                \<lparr> Upgrade.name = ''Auto Clicker'', purchased = False, cost = 500,
                  productionMultiplier = 3,
                  description = ''Triple the production of Cursors'' \<rparr> ] \<rparr>,
          \<lparr> name = ''Farm'', count = 0, baseCost = 100, baseProduction = 1,
            upgrades =
              [ \<lparr> Upgrade.name = ''Fertilizer'', purchased = False, cost = 1000,
                  productionMultiplier = 2,
                  description = ''Double the production of Farms'' \<rparr>,
                \<lparr> Upgrade.name = ''Irrigation'', purchased = False, cost = 5000,
                  productionMultiplier = 3,
                  description = ''Triple the production of Farms'' \<rparr> ] \<rparr>,
          \<lparr> name = ''Factory'', count = 0, baseCost = 1100, baseProduction = 8,
            upgrades =
              [ \<lparr> Upgrade.name = ''Assembly Line'', purchased = False, cost = 12000,
                  productionMultiplier = 2,
                  description = ''Double the production of Factories'' \<rparr>,
                \<lparr> Upgrade.name = ''Automation'', purchased = False, cost = 60000,
                  productionMultiplier = 3,
                  description = ''Triple the production of Factories'' \<rparr> ] \<rparr> ],
      lastSaved = now \<rparr>"

subsection \<open>Economy model\<close>

text \<open>
  \<^verbatim>\<open>Math.floor(building.baseCost * Math.pow(1.15, building.count))\<close>. The result is a
  \<^verbatim>\<open>number\<close> again, so the floor is read back as a real. The power and the product
  are the exact ones: in double arithmetic a product can fall just below an integer
  that the exact product reaches (\<^verbatim>\<open>100 * 1.15\<close> is \<^verbatim>\<open>114.99999999999999\<close>), and the
  floor is then 1 less than here.
\<close>

definition getBuildingCost :: "Building \<Rightarrow> real" where
  "getBuildingCost building =
     of_int \<lfloor>baseCost building * (115 / 100) ^ count building\<rfloor>"

text \<open>
  The \<^verbatim>\<open>for ... of\<close> loop over the upgrades, with the accumulator \<^verbatim>\<open>multiplier\<close>.
\<close>

fun upgradeLoop :: "real \<Rightarrow> Upgrade list \<Rightarrow> real" where
  "upgradeLoop multiplier [] = multiplier"
| "upgradeLoop multiplier (upgrade # rest) =
     upgradeLoop
       (if purchased upgrade then multiplier * productionMultiplier upgrade else multiplier)
       rest"

definition getBuildingProduction :: "Building \<Rightarrow> real" where
  "getBuildingProduction building =
     real (count building) * baseProduction building * upgradeLoop 1 (upgrades building)"

text \<open>\<^verbatim>\<open>gameState.buildings.reduce((total, building) => total + ..., 0)\<close>.\<close>

definition getTotalProduction :: "GameState \<Rightarrow> real" where
  "getTotalProduction g =
     foldl (\<lambda>total building. total + getBuildingProduction building) 0 (buildings g)"

subsection \<open>Commands\<close>

text \<open>\<^verbatim>\<open>click\<close> (lines 161-164).\<close>

definition click :: "GameState \<Rightarrow> GameState" where
  "click g =
     g\<lparr> points := points g + clickPower g,
        totalPointsEarned := totalPointsEarned g + clickPower g \<rparr>"

text \<open>
  Reading \<^verbatim>\<open>gameState.buildings[index]\<close> out of range gives \<^verbatim>\<open>undefined\<close>, and the
  first property read on it (\<^verbatim>\<open>building.baseCost\<close> in \<^verbatim>\<open>getBuildingCost\<close>,
  \<^verbatim>\<open>building.upgrades\<close> or \<^verbatim>\<open>upgrade.purchased\<close> in \<^verbatim>\<open>buyUpgrade\<close>) throws a
  \<^verbatim>\<open>TypeError\<close> before anything is written.
\<close>

datatype error = TypeError

text \<open>\<^verbatim>\<open>buyBuilding\<close> (lines 167-177): the boolean returned and the state after.\<close>

definition buyBuilding :: "nat \<Rightarrow> GameState \<Rightarrow> error + bool \<times> GameState" where
  "buyBuilding index g =
     (if index < length (buildings g) then
        let building = buildings g ! index;
            cost = getBuildingCost building
        in if points g \<ge> cost then
             Inr (True,
               g\<lparr> points := points g - cost,
                  buildings := (buildings g)[index := building\<lparr> count := count building + 1 \<rparr>] \<rparr>)
           else Inr (False, g)
      else Inl TypeError)"

text \<open>\<^verbatim>\<open>buyUpgrade\<close> (lines 180-190).\<close>

definition buyUpgrade :: "nat \<Rightarrow> nat \<Rightarrow> GameState \<Rightarrow> error + bool \<times> GameState" where
  "buyUpgrade buildingIndex upgradeIndex g =
     (if buildingIndex < length (buildings g) then
        let building = buildings g ! buildingIndex in
        if upgradeIndex < length (upgrades building) then
          let upgrade = upgrades building ! upgradeIndex in
          if \<not> purchased upgrade \<and> points g \<ge> cost upgrade then
            Inr (True,
              g\<lparr> points := points g - cost upgrade,
                 buildings := (buildings g)[buildingIndex :=
                   building\<lparr> upgrades :=
                     (upgrades building)[upgradeIndex := upgrade\<lparr> purchased := True \<rparr>] \<rparr>] \<rparr>)
          else Inr (False, g)
        else Inl TypeError
      else Inl TypeError)"

subsection \<open>The process: game state, tick clock and save file\<close>

text \<open>
  Beside \<^verbatim>\<open>gameState\<close> the program has the global \<^verbatim>\<open>lastUpdate\<close> (milliseconds) and
  the file \<^verbatim>\<open>clicker-save.json\<close>: \<open>None\<close> when \<^verbatim>\<open>fs.existsSync\<close> is false, the text
  of the file otherwise. \<^verbatim>\<open>Date.now()\<close> is the parameter \<open>now\<close> of the functions that
  read the clock. What the program prints to the console is not part of the state,
  and a read or a write of the file that fails for another reason (permissions, a
  full disk) is not modelled.
\<close>

record World =
  gameState :: GameState
  lastUpdate :: real
  saveFile :: "string option"

text \<open>
  \<^verbatim>\<open>gameLoop\<close> (lines 232-244). \<^verbatim>\<open>displayStatus\<close> only reads the state and prints.
\<close>

definition gameLoop :: "real \<Rightarrow> World \<Rightarrow> World" where
  "gameLoop now w =
     (let elapsed = (now - lastUpdate w) / 1000;
          g = gameState w;
          pointsGained = getTotalProduction g * elapsed
      in w\<lparr> lastUpdate := now,
            gameState := g\<lparr> points := points g + pointsGained,
                             totalPointsEarned := totalPointsEarned g + pointsGained \<rparr> \<rparr>)"

text \<open>
  \<^verbatim>\<open>JSON.stringify\<close> and \<^verbatim>\<open>JSON.parse\<close> belong to the language's library, not to the
  repository: they are the parameters \<open>stringify\<close> and \<open>parse\<close>, and \<open>parse\<close> gives
  \<open>None\<close> where \<^verbatim>\<open>JSON.parse\<close> throws a \<^verbatim>\<open>SyntaxError\<close>. The source assigns whatever
  \<^verbatim>\<open>JSON.parse\<close> returns to \<^verbatim>\<open>gameState\<close> with no validation; a text that parses to a
  value of another shape than \<^verbatim>\<open>GameState\<close> has no value in this typed embedding.
\<close>

text \<open>\<^verbatim>\<open>saveGame\<close> (lines 115-119).\<close>

definition saveGame :: "(GameState \<Rightarrow> string) \<Rightarrow> real \<Rightarrow> World \<Rightarrow> World" where
  "saveGame stringify now w =
     (let g = (gameState w)\<lparr> lastSaved := now \<rparr>
      in w\<lparr> gameState := g, saveFile := Some (stringify g) \<rparr>)"

text \<open>
  \<^verbatim>\<open>loadGame\<close> (lines 122-135): the \<^verbatim>\<open>catch\<close> block returns \<^verbatim>\<open>false\<close> and the
  assignment to \<^verbatim>\<open>gameState\<close> has not happened.
\<close>

definition loadGame :: "(string \<Rightarrow> GameState option) \<Rightarrow> World \<Rightarrow> bool \<times> World" where
  "loadGame parse w =
     (case saveFile w of
        None \<Rightarrow> (False, w)
      | Some data \<Rightarrow>
          (case parse data of
             None \<Rightarrow> (False, w)
           | Some g \<Rightarrow> (True, w\<lparr> gameState := g \<rparr>)))"

subsection \<open>Formatter\<close>

text \<open>
  \<^verbatim>\<open>Number.prototype.toFixed\<close> is library code; this is the algorithm of ECMA-262
  (section \<^verbatim>\<open>Number.prototype.toFixed\<close>) on the exact value \<open>x\<close>, step by step.
\<close>

definition digit :: "nat \<Rightarrow> char" where
  "digit d = ''0123456789'' ! d"






subsection \<open>States reached by play\<close>

text \<open>
  \<open>plays w w'\<close>: the running program gets from the world \<open>w\<close> to the world \<open>w'\<close> by a
  sequence of clicks, purchases, ticks and saves. \<^verbatim>\<open>Date.now()\<close> is not monotonic, so
  a tick may see any clock value. \<^verbatim>\<open>loadGame\<close> is left out: it brings in whatever the
  file holds (section 3 of the specification calls that an external state reset).
\<close>

inductive plays :: "World \<Rightarrow> World \<Rightarrow> bool" where
  here:
    "plays w w"
| click:
    "plays w w' \<Longrightarrow> plays w (w'\<lparr> gameState := click (gameState w') \<rparr>)"
| buyBuilding:
    "plays w w' \<Longrightarrow> buyBuilding i (gameState w') = Inr (ok, g') \<Longrightarrow>
     plays w (w'\<lparr> gameState := g' \<rparr>)"
| buyUpgrade:
    "plays w w' \<Longrightarrow> buyUpgrade i j (gameState w') = Inr (ok, g') \<Longrightarrow>
     plays w (w'\<lparr> gameState := g' \<rparr>)"
| tick:
    "plays w w' \<Longrightarrow> plays w (gameLoop now w')"
| save:
    "plays w w' \<Longrightarrow> plays w (saveGame stringify now w')"

text \<open>
  The worlds reached by play from a fresh start, that is from the initial state of
  the source. When the program starts from a file that \<^verbatim>\<open>saveGame\<close> wrote during such
  a play, its state is of this kind again.
\<close>

definition reachable :: "World \<Rightarrow> bool" where
  "reachable w \<longleftrightarrow>
     (\<exists>now now' content.
        plays \<lparr> gameState = initialGameState now, lastUpdate = now', saveFile = content \<rparr> w)"

text \<open>
  What play never changes: the click power, and the constants of the buildings and of
  their upgrades.
\<close>

definition constantsOK :: "GameState \<Rightarrow> bool" where
  "constantsOK g \<longleftrightarrow>
     clickPower g = 1 \<and>
     list_all (\<lambda>b. baseCost b \<in> \<int> \<and> 0 \<le> baseProduction b \<and>
                 list_all (\<lambda>u. 0 \<le> productionMultiplier u) (upgrades b))
       (buildings g)"

text \<open>
  No purchased flag of \<open>g\<close> is lost in \<open>g'\<close>: the two states have the same buildings and
  upgrades by position, and an upgrade purchased in \<open>g\<close> is purchased in \<open>g'\<close>.
\<close>

definition flagsKept :: "GameState \<Rightarrow> GameState \<Rightarrow> bool" where
  "flagsKept g g' \<longleftrightarrow>
     length (buildings g') = length (buildings g) \<and>
     (\<forall>i < length (buildings g).
        length (upgrades (buildings g' ! i)) = length (upgrades (buildings g ! i)) \<and>
        (\<forall>j < length (upgrades (buildings g ! i)).
           purchased (upgrades (buildings g ! i) ! j) \<longrightarrow>
           purchased (upgrades (buildings g' ! i) ! j)))"

subsection \<open>The formatter as the specification words it\<close>

text \<open>
  Section 4.5 of the specification: ``value to 1 decimal place'', ``value/1,000 to 2
  decimals + K''. \<open>spec_decimalPlaces f x\<close> is the non-negative \<open>x\<close> written in fixed
  notation with \<open>f\<close> decimals: \<open>x\<close> is scaled by \<open>10^f\<close> and rounded to the nearest
  integer \<open>n\<close> (a tie goes up), and the text is the integer part \<open>n div 10^f\<close>, a point
  and the last \<open>f\<close> digits of \<open>n\<close>. This definition follows the specification, not the
  source; it is what \<open>toFixed\<close> is compared with.
\<close>

fun lastDigits :: "nat \<Rightarrow> nat \<Rightarrow> string" where
  "lastDigits 0 n = []"
| "lastDigits (Suc f) n = lastDigits f (n div 10) @ [digit (n mod 10)]"


section \<open>Properties\<close>

subsection \<open>Economy\<close>

lemma upgradeLoop_prod:
  "upgradeLoop m us = m * prod_list (map productionMultiplier (filter purchased us))"
  by (induction us arbitrary: m) simp_all

lemma foldl_plus_sum_list:
  "foldl (\<lambda>total x. total + f x) a xs = a + sum_list (map f xs)" for a :: real
  by (induction xs arbitrary: a) simp_all

lemma prod_purchased:
  "prod_list (map productionMultiplier (filter purchased us)) =
   prod_list (map (\<lambda>u. if purchased u then productionMultiplier u else 1) us)"
  by (induction us) simp_all

text \<open>
  Claim C7. The production of a building is \<open>count * baseProduction * multiplier\<close>,
  where the multiplier is the product of \<open>productionMultiplier\<close> over exactly the
  purchased upgrades of the building, which is the product over all its upgrades with
  the factor 1 for one that is not purchased; the production is 0 when the count is 0,
  whatever the upgrades; and the total production is the sum of the productions of
  the buildings.
\<close>

theorem production_formula:
  "getBuildingProduction b =
     real (count b) * baseProduction b *
       prod_list (map productionMultiplier (filter purchased (upgrades b)))
   \<and> prod_list (map productionMultiplier (filter purchased (upgrades b))) =
       prod_list (map (\<lambda>u. if purchased u then productionMultiplier u else 1) (upgrades b))
   \<and> (count b = 0 \<longrightarrow> getBuildingProduction b = 0)
   \<and> getTotalProduction g = sum_list (map getBuildingProduction (buildings g))"
proof (intro conjI impI)
  show "getBuildingProduction b =
     real (count b) * baseProduction b *
       prod_list (map productionMultiplier (filter purchased (upgrades b)))"
    by (simp add: getBuildingProduction_def upgradeLoop_prod)
  show "prod_list (map productionMultiplier (filter purchased (upgrades b))) =
       prod_list (map (\<lambda>u. if purchased u then productionMultiplier u else 1) (upgrades b))"
    by (rule prod_purchased)
  show "getBuildingProduction b = 0" if "count b = 0"
    using that by (simp add: getBuildingProduction_def)
  show "getTotalProduction g = sum_list (map getBuildingProduction (buildings g))"
    by (simp add: getTotalProduction_def foldl_plus_sum_list)
qed

text \<open>A farm that is not owned yet produces nothing, its upgrade bought or not.\<close>

theorem production_formula_witness:
  "getBuildingProduction
     \<lparr> name = ''Farm'', count = 0, baseCost = 100, baseProduction = 1,
       upgrades = [\<lparr> Upgrade.name = ''Fertilizer'', purchased = True, cost = 1000,
         productionMultiplier = 2, description = ''Double the production of Farms'' \<rparr>] \<rparr> = 0"
  using production_formula
    [of "\<lparr> name = ''Farm'', count = 0, baseCost = 100, baseProduction = 1,
       upgrades = [\<lparr> Upgrade.name = ''Fertilizer'', purchased = True, cost = 1000,
         productionMultiplier = 2, description = ''Double the production of Farms'' \<rparr>] \<rparr>"]
  by simp



subsection \<open>A fresh game: \<open>n\<close> clicks give \<open>n\<close> points\<close>

lemma clicks:
  "(click ^^ n) g =
     g\<lparr> points := points g + real n * clickPower g,
        totalPointsEarned := totalPointsEarned g + real n * clickPower g \<rparr>"
  by (induction n) (simp_all add: click_def algebra_simps)

lemma clicks_fresh:
  "(click ^^ n) (initialGameState t) =
     (initialGameState t)\<lparr> points := real n, totalPointsEarned := real n \<rparr>"
  by (simp add: clicks) (simp add: initialGameState_def)

lemma fresh_buildings:
  "buildings ((click ^^ n) (initialGameState t)) = buildings (initialGameState t)"
  by (simp add: clicks_fresh)

lemma fresh_cursor:
  "length (buildings (initialGameState t)) = 3"
  "count (buildings (initialGameState t) ! 0) = 0"
  "getBuildingCost (buildings (initialGameState t) ! 0) = 15"
  "length (upgrades (buildings (initialGameState t) ! 0)) = 2"
  "\<not> purchased (upgrades (buildings (initialGameState t) ! 0) ! 0)"
  "cost (upgrades (buildings (initialGameState t) ! 0) ! 0) = 100"
  "buildings (initialGameState t) \<noteq> []"
  "upgrades (buildings (initialGameState t) ! 0) \<noteq> []"
  by (simp_all add: initialGameState_def getBuildingCost_def)

subsection \<open>Purchases\<close>

text \<open>
  Claim C1. For a valid building index, \<open>buyBuilding\<close> returns normally, and it returns
  true exactly when \<open>points \<ge> cost\<close>; then it takes exactly the cost from the points
  and adds exactly 1 to the count of that building; otherwise the state is the one it
  was given. With \<open>points = cost\<close> it succeeds and leaves 0 points; with
  \<open>points = cost - 1\<close> it fails and changes nothing.
\<close>

theorem buyBuilding_all_or_nothing:
  assumes "i < length (buildings g)"
  shows "\<exists>ok g'. buyBuilding i g = Inr (ok, g')
    \<and> (ok \<longleftrightarrow> points g \<ge> getBuildingCost (buildings g ! i))
    \<and> (ok \<longrightarrow> points g' = points g - getBuildingCost (buildings g ! i)
              \<and> count (buildings g' ! i) = count (buildings g ! i) + 1)
    \<and> (\<not> ok \<longrightarrow> g' = g)
    \<and> (points g = getBuildingCost (buildings g ! i) \<longrightarrow> ok \<and> points g' = 0)
    \<and> (points g = getBuildingCost (buildings g ! i) - 1 \<longrightarrow> \<not> ok \<and> g' = g)"
  using assms by (simp add: buyBuilding_def Let_def)

text \<open>
  Section 8 of the specification: fifteen clicks of a fresh game buy the first cursor
  and leave 0 points; fourteen do not, and nothing changes.
\<close>

theorem buyBuilding_all_or_nothing_witness:
  "0 < length (buildings ((click ^^ 15) (initialGameState 0)))
   \<and> (\<exists>g'. buyBuilding 0 ((click ^^ 15) (initialGameState 0)) = Inr (True, g')
         \<and> points g' = 0 \<and> count (buildings g' ! 0) = 1)
   \<and> buyBuilding 0 ((click ^^ 14) (initialGameState 0)) =
       Inr (False, (click ^^ 14) (initialGameState 0))"
proof -
  have len: "0 < length (buildings ((click ^^ n) (initialGameState 0)))" for n
    by (simp add: fresh_buildings fresh_cursor)
  have cost: "getBuildingCost (buildings ((click ^^ n) (initialGameState 0)) ! 0) = 15" for n
    by (simp add: fresh_buildings fresh_cursor)
  have cnt: "count (buildings ((click ^^ n) (initialGameState 0)) ! 0) = 0" for n
    by (simp add: fresh_buildings fresh_cursor)
  have pts: "points ((click ^^ n) (initialGameState 0)) = real n" for n
    by (simp add: clicks_fresh)
  from buyBuilding_all_or_nothing [OF len [of 15]]
  have "\<exists>g'. buyBuilding 0 ((click ^^ 15) (initialGameState 0)) = Inr (True, g')
         \<and> points g' = 0 \<and> count (buildings g' ! 0) = 1"
    unfolding cost cnt pts by auto
  moreover from buyBuilding_all_or_nothing [OF len [of 14]]
  have "buyBuilding 0 ((click ^^ 14) (initialGameState 0)) =
       Inr (False, (click ^^ 14) (initialGameState 0))"
    unfolding cost cnt pts by auto
  ultimately show ?thesis
    using len by simp
qed

text \<open>
  Claim C10. A successful \<open>buyBuilding i\<close> leaves \<open>totalPointsEarned\<close>, \<open>clickPower\<close>
  and \<open>lastSaved\<close> as they were, keeps the number of buildings, every building at
  another index, and the name, base cost, base production and upgrades of building
  \<open>i\<close>: only the points and the count of building \<open>i\<close> can differ. A successful
  \<open>buyUpgrade i j\<close> leaves the same three fields, every other building, every other
  field of building \<open>i\<close>, every other upgrade of it, and the name, cost, multiplier and
  description of upgrade \<open>j\<close>: only the points and that purchased flag can differ.
\<close>

theorem purchase_frame:
  "(\<forall>i g'. buyBuilding i g = Inr (True, g') \<longrightarrow>
      totalPointsEarned g' = totalPointsEarned g \<and> clickPower g' = clickPower g \<and>
      lastSaved g' = lastSaved g \<and> length (buildings g') = length (buildings g) \<and>
      (\<forall>k. k \<noteq> i \<longrightarrow> buildings g' ! k = buildings g ! k) \<and>
      name (buildings g' ! i) = name (buildings g ! i) \<and>
      baseCost (buildings g' ! i) = baseCost (buildings g ! i) \<and>
      baseProduction (buildings g' ! i) = baseProduction (buildings g ! i) \<and>
      upgrades (buildings g' ! i) = upgrades (buildings g ! i))
   \<and> (\<forall>i j g'. buyUpgrade i j g = Inr (True, g') \<longrightarrow>
      totalPointsEarned g' = totalPointsEarned g \<and> clickPower g' = clickPower g \<and>
      lastSaved g' = lastSaved g \<and> length (buildings g') = length (buildings g) \<and>
      (\<forall>k. k \<noteq> i \<longrightarrow> buildings g' ! k = buildings g ! k) \<and>
      name (buildings g' ! i) = name (buildings g ! i) \<and>
      count (buildings g' ! i) = count (buildings g ! i) \<and>
      baseCost (buildings g' ! i) = baseCost (buildings g ! i) \<and>
      baseProduction (buildings g' ! i) = baseProduction (buildings g ! i) \<and>
      length (upgrades (buildings g' ! i)) = length (upgrades (buildings g ! i)) \<and>
      (\<forall>l. l \<noteq> j \<longrightarrow>
         upgrades (buildings g' ! i) ! l = upgrades (buildings g ! i) ! l) \<and>
      Upgrade.name (upgrades (buildings g' ! i) ! j) =
        Upgrade.name (upgrades (buildings g ! i) ! j) \<and>
      cost (upgrades (buildings g' ! i) ! j) = cost (upgrades (buildings g ! i) ! j) \<and>
      productionMultiplier (upgrades (buildings g' ! i) ! j) =
        productionMultiplier (upgrades (buildings g ! i) ! j) \<and>
      description (upgrades (buildings g' ! i) ! j) =
        description (upgrades (buildings g ! i) ! j))"
proof (intro conjI allI impI)
  fix i g'
  assume "buyBuilding i g = Inr (True, g')"
  then have i: "i < length (buildings g)"
    and g': "g' = g\<lparr> points := points g - getBuildingCost (buildings g ! i),
        buildings := (buildings g)
          [i := (buildings g ! i)\<lparr> count := count (buildings g ! i) + 1 \<rparr>] \<rparr>"
    by (auto simp: buyBuilding_def Let_def split: if_splits)
  show "totalPointsEarned g' = totalPointsEarned g" "clickPower g' = clickPower g"
    "lastSaved g' = lastSaved g" "length (buildings g') = length (buildings g)"
    "name (buildings g' ! i) = name (buildings g ! i)"
    "baseCost (buildings g' ! i) = baseCost (buildings g ! i)"
    "baseProduction (buildings g' ! i) = baseProduction (buildings g ! i)"
    "upgrades (buildings g' ! i) = upgrades (buildings g ! i)"
    using i by (simp_all add: g')
  show "buildings g' ! k = buildings g ! k" if "k \<noteq> i" for k
    using that by (simp add: g')
next
  fix i j g'
  assume "buyUpgrade i j g = Inr (True, g')"
  then have i: "i < length (buildings g)"
    and j: "j < length (upgrades (buildings g ! i))"
    and g': "g' = g\<lparr> points := points g - cost (upgrades (buildings g ! i) ! j),
        buildings := (buildings g)[i := (buildings g ! i)\<lparr> upgrades :=
          (upgrades (buildings g ! i))
            [j := (upgrades (buildings g ! i) ! j)\<lparr> purchased := True \<rparr>] \<rparr>] \<rparr>"
    by (auto simp: buyUpgrade_def Let_def split: if_splits)
  show "totalPointsEarned g' = totalPointsEarned g" "clickPower g' = clickPower g"
    "lastSaved g' = lastSaved g" "length (buildings g') = length (buildings g)"
    "name (buildings g' ! i) = name (buildings g ! i)"
    "count (buildings g' ! i) = count (buildings g ! i)"
    "baseCost (buildings g' ! i) = baseCost (buildings g ! i)"
    "baseProduction (buildings g' ! i) = baseProduction (buildings g ! i)"
    "length (upgrades (buildings g' ! i)) = length (upgrades (buildings g ! i))"
    "Upgrade.name (upgrades (buildings g' ! i) ! j) =
        Upgrade.name (upgrades (buildings g ! i) ! j)"
    "cost (upgrades (buildings g' ! i) ! j) = cost (upgrades (buildings g ! i) ! j)"
    "productionMultiplier (upgrades (buildings g' ! i) ! j) =
        productionMultiplier (upgrades (buildings g ! i) ! j)"
    "description (upgrades (buildings g' ! i) ! j) =
        description (upgrades (buildings g ! i) ! j)"
    using i j by (simp_all add: g')
  show "buildings g' ! k = buildings g ! k" if "k \<noteq> i" for k
    using that by (simp add: g')
  show "upgrades (buildings g' ! i) ! l = upgrades (buildings g ! i) ! l" if "l \<noteq> j" for l
    using that i by (simp add: g')
qed

text \<open>
  In a fresh game, the first cursor bought after fifteen clicks and the first cursor
  upgrade bought after a hundred.
\<close>

theorem purchase_frame_witness:
  "(\<exists>g'. buyBuilding 0 ((click ^^ 15) (initialGameState 0)) = Inr (True, g')
     \<and> totalPointsEarned g' = 15 \<and> clickPower g' = 1
     \<and> buildings g' ! 1 = buildings (initialGameState 0) ! 1
     \<and> upgrades (buildings g' ! 0) = upgrades (buildings (initialGameState 0) ! 0))
   \<and> (\<exists>g'. buyUpgrade 0 0 ((click ^^ 100) (initialGameState 0)) = Inr (True, g')
     \<and> totalPointsEarned g' = 100 \<and> count (buildings g' ! 0) = 0
     \<and> buildings g' ! 2 = buildings (initialGameState 0) ! 2
     \<and> upgrades (buildings g' ! 0) ! 1 = upgrades (buildings (initialGameState 0) ! 0) ! 1
     \<and> cost (upgrades (buildings g' ! 0) ! 0) = 100)"
proof (intro conjI)
  have fresh: "totalPointsEarned ((click ^^ n) (initialGameState 0)) = real n"
    "clickPower ((click ^^ n) (initialGameState 0)) = 1" for n
    by (simp_all add: clicks_fresh) (simp add: initialGameState_def)
  define g1 where "g1 = snd (projr (buyBuilding 0 ((click ^^ 15) (initialGameState 0))))"
  have b: "buyBuilding 0 ((click ^^ 15) (initialGameState 0)) = Inr (True, g1)"
    by (simp add: g1_def clicks_fresh buyBuilding_def Let_def fresh_cursor)
  have "\<forall>i g'. buyBuilding i ((click ^^ 15) (initialGameState 0)) = Inr (True, g') \<longrightarrow>
      totalPointsEarned g' = totalPointsEarned ((click ^^ 15) (initialGameState 0)) \<and>
      clickPower g' = clickPower ((click ^^ 15) (initialGameState 0)) \<and>
      (\<forall>k. k \<noteq> i \<longrightarrow>
         buildings g' ! k = buildings ((click ^^ 15) (initialGameState 0)) ! k) \<and>
      upgrades (buildings g' ! i) =
        upgrades (buildings ((click ^^ 15) (initialGameState 0)) ! i)"
    using purchase_frame [of "(click ^^ 15) (initialGameState 0)"] by blast
  with b have "totalPointsEarned g1 = 15 \<and> clickPower g1 = 1
     \<and> buildings g1 ! 1 = buildings (initialGameState 0) ! 1
     \<and> upgrades (buildings g1 ! 0) = upgrades (buildings (initialGameState 0) ! 0)"
    unfolding fresh fresh_buildings by simp
  with b show "\<exists>g'. buyBuilding 0 ((click ^^ 15) (initialGameState 0)) = Inr (True, g')
     \<and> totalPointsEarned g' = 15 \<and> clickPower g' = 1
     \<and> buildings g' ! 1 = buildings (initialGameState 0) ! 1
     \<and> upgrades (buildings g' ! 0) = upgrades (buildings (initialGameState 0) ! 0)"
    by blast
  define g2 where "g2 = snd (projr (buyUpgrade 0 0 ((click ^^ 100) (initialGameState 0))))"
  have u: "buyUpgrade 0 0 ((click ^^ 100) (initialGameState 0)) = Inr (True, g2)"
    by (simp add: g2_def clicks_fresh buyUpgrade_def Let_def fresh_cursor)
  have "\<forall>i j g'. buyUpgrade i j ((click ^^ 100) (initialGameState 0)) = Inr (True, g') \<longrightarrow>
      totalPointsEarned g' = totalPointsEarned ((click ^^ 100) (initialGameState 0)) \<and>
      count (buildings g' ! i) = count (buildings ((click ^^ 100) (initialGameState 0)) ! i) \<and>
      (\<forall>k. k \<noteq> i \<longrightarrow>
         buildings g' ! k = buildings ((click ^^ 100) (initialGameState 0)) ! k) \<and>
      (\<forall>l. l \<noteq> j \<longrightarrow> upgrades (buildings g' ! i) ! l =
         upgrades (buildings ((click ^^ 100) (initialGameState 0)) ! i) ! l) \<and>
      cost (upgrades (buildings g' ! i) ! j) =
        cost (upgrades (buildings ((click ^^ 100) (initialGameState 0)) ! i) ! j)"
    using purchase_frame [of "(click ^^ 100) (initialGameState 0)"] by blast
  with u have "totalPointsEarned g2 = 100 \<and> count (buildings g2 ! 0) = 0
     \<and> buildings g2 ! 2 = buildings (initialGameState 0) ! 2
     \<and> upgrades (buildings g2 ! 0) ! 1 = upgrades (buildings (initialGameState 0) ! 0) ! 1
     \<and> cost (upgrades (buildings g2 ! 0) ! 0) = 100"
    unfolding fresh fresh_buildings by (simp add: fresh_cursor)
  with u show "\<exists>g'. buyUpgrade 0 0 ((click ^^ 100) (initialGameState 0)) = Inr (True, g')
     \<and> totalPointsEarned g' = 100 \<and> count (buildings g' ! 0) = 0
     \<and> buildings g' ! 2 = buildings (initialGameState 0) ! 2
     \<and> upgrades (buildings g' ! 0) ! 1 = upgrades (buildings (initialGameState 0) ! 0) ! 1
     \<and> cost (upgrades (buildings g' ! 0) ! 0) = 100"
    by blast
qed

subsection \<open>Invariants of play\<close>

lemma list_all_update:
  "list_all P xs \<Longrightarrow> P x \<Longrightarrow> list_all P (xs[i := x])"
  by (induction xs arbitrary: i) (auto split: nat.splits)

lemma constantsOK_initial: "constantsOK (initialGameState now)"
  by (simp add: constantsOK_def initialGameState_def)

lemma constantsOK_click: "constantsOK g \<Longrightarrow> constantsOK (click g)"
  by (simp add: constantsOK_def click_def)

lemma constantsOK_buyBuilding:
  assumes "constantsOK g" and "buyBuilding i g = Inr (ok, g')"
  shows "constantsOK g'"
proof (cases ok)
  case False
  with assms show ?thesis
    by (auto simp: buyBuilding_def Let_def split: if_splits)
next
  case True
  with assms(2) have i: "i < length (buildings g)"
    and g': "g' = g\<lparr> points := points g - getBuildingCost (buildings g ! i),
        buildings := (buildings g)
          [i := (buildings g ! i)\<lparr> count := count (buildings g ! i) + 1 \<rparr>] \<rparr>"
    by (auto simp: buyBuilding_def Let_def split: if_splits)
  from assms(1) i
  have "baseCost (buildings g ! i) \<in> \<int> \<and> 0 \<le> baseProduction (buildings g ! i) \<and>
      list_all (\<lambda>u. 0 \<le> productionMultiplier u) (upgrades (buildings g ! i))"
    by (simp add: constantsOK_def list_all_length)
  with assms(1) show ?thesis
    unfolding g' constantsOK_def by (simp add: list_all_update)
qed

lemma constantsOK_buyUpgrade:
  assumes "constantsOK g" and "buyUpgrade i j g = Inr (ok, g')"
  shows "constantsOK g'"
proof (cases ok)
  case False
  with assms show ?thesis
    by (auto simp: buyUpgrade_def Let_def split: if_splits)
next
  case True
  with assms(2) have i: "i < length (buildings g)"
    and j: "j < length (upgrades (buildings g ! i))"
    and g': "g' = g\<lparr> points := points g - cost (upgrades (buildings g ! i) ! j),
        buildings := (buildings g)[i := (buildings g ! i)\<lparr> upgrades :=
          (upgrades (buildings g ! i))
            [j := (upgrades (buildings g ! i) ! j)\<lparr> purchased := True \<rparr>] \<rparr>] \<rparr>"
    by (auto simp: buyUpgrade_def Let_def split: if_splits)
  from assms(1) i
  have b: "baseCost (buildings g ! i) \<in> \<int> \<and> 0 \<le> baseProduction (buildings g ! i) \<and>
      list_all (\<lambda>u. 0 \<le> productionMultiplier u) (upgrades (buildings g ! i))"
    by (simp add: constantsOK_def list_all_length)
  with j have "0 \<le> productionMultiplier (upgrades (buildings g ! i) ! j)"
    by (simp add: list_all_length)
  with b assms(1) show ?thesis
    unfolding g' constantsOK_def by (simp add: list_all_update)
qed

lemma constantsOK_gameLoop:
  "constantsOK (gameState w) \<Longrightarrow> constantsOK (gameState (gameLoop now w))"
  by (simp add: constantsOK_def gameLoop_def Let_def)

lemma constantsOK_saveGame:
  "constantsOK (gameState w) \<Longrightarrow> constantsOK (gameState (saveGame stringify now w))"
  by (simp add: constantsOK_def saveGame_def Let_def)

lemma plays_constantsOK:
  "plays w w' \<Longrightarrow> constantsOK (gameState w) \<Longrightarrow> constantsOK (gameState w')"
proof (induction rule: plays.induct)
  case (here w)
  then show ?case by simp
next
  case (click w w')
  then show ?case by (simp add: constantsOK_click)
next
  case (buyBuilding w w' i ok g')
  then show ?case using constantsOK_buyBuilding by simp
next
  case (buyUpgrade w w' i j ok g')
  then show ?case using constantsOK_buyUpgrade by simp
next
  case (tick w w' now)
  then show ?case by (simp add: constantsOK_gameLoop)
next
  case (save w w' stringify now)
  then show ?case by (simp add: constantsOK_saveGame)
qed

lemma reachable_constantsOK: "reachable w \<Longrightarrow> constantsOK (gameState w)"
  unfolding reachable_def using plays_constantsOK constantsOK_initial by fastforce

lemma reachable_start:
  "reachable \<lparr> gameState = initialGameState now, lastUpdate = now', saveFile = content \<rparr>"
  unfolding reachable_def using plays.here by blast

lemma reachable_click: "reachable w \<Longrightarrow> reachable (w\<lparr> gameState := click (gameState w) \<rparr>)"
  unfolding reachable_def using plays.click by blast

lemma reachable_clicks:
  "reachable \<lparr> gameState = (click ^^ n) (initialGameState t), lastUpdate = u, saveFile = c \<rparr>"
proof (induction n)
  case 0
  show ?case by (simp add: reachable_start)
next
  case (Suc n)
  from reachable_click [OF Suc] show ?case by simp
qed

lemma upgradeLoop_nonneg:
  "0 \<le> m \<Longrightarrow> list_all (\<lambda>u. 0 \<le> productionMultiplier u) us \<Longrightarrow> 0 \<le> upgradeLoop m us"
  by (induction us arbitrary: m) simp_all

lemma production_nonneg:
  assumes "constantsOK g"
  shows "0 \<le> getTotalProduction g"
proof -
  have "0 \<le> getBuildingProduction b" if "b \<in> set (buildings g)" for b
    using assms that
    by (auto simp: constantsOK_def list_all_iff getBuildingProduction_def
        intro!: mult_nonneg_nonneg upgradeLoop_nonneg)
  then have "0 \<le> sum_list (map getBuildingProduction (buildings g))"
    by (intro sum_list_nonneg) auto
  then show ?thesis
    by (simp add: getTotalProduction_def foldl_plus_sum_list)
qed

lemma flagsKept_buyBuilding:
  "buyBuilding i g = Inr (ok, g') \<Longrightarrow> flagsKept g g'"
  by (auto simp: buyBuilding_def Let_def flagsKept_def nth_list_update split: if_splits)

lemma flagsKept_buyUpgrade:
  "buyUpgrade i j g = Inr (ok, g') \<Longrightarrow> flagsKept g g'"
  by (auto simp: buyUpgrade_def Let_def flagsKept_def nth_list_update split: if_splits)

lemma flagsKept_refl: "flagsKept g g"
  by (simp add: flagsKept_def)

lemma flagsKept_trans: "flagsKept a b \<Longrightarrow> flagsKept b c \<Longrightarrow> flagsKept a c"
  unfolding flagsKept_def by auto

lemma plays_flagsKept: "plays w w' \<Longrightarrow> flagsKept (gameState w) (gameState w')"
proof (induction rule: plays.induct)
  case (here w)
  show ?case by (rule flagsKept_refl)
next
  case (click w w')
  have "flagsKept (gameState w') (click (gameState w'))"
    by (simp add: flagsKept_def click_def)
  with click.IH show ?case
    using flagsKept_trans by simp
next
  case (buyBuilding w w' i ok g')
  from buyBuilding.hyps(2) have "flagsKept (gameState w') g'"
    by (rule flagsKept_buyBuilding)
  with buyBuilding.IH show ?case
    using flagsKept_trans by simp
next
  case (buyUpgrade w w' i j ok g')
  from buyUpgrade.hyps(2) have "flagsKept (gameState w') g'"
    by (rule flagsKept_buyUpgrade)
  with buyUpgrade.IH show ?case
    using flagsKept_trans by simp
next
  case (tick w w' now)
  have "flagsKept (gameState w') (gameState (gameLoop now w'))"
    by (simp add: flagsKept_def gameLoop_def Let_def)
  with tick.IH show ?case
    by (rule flagsKept_trans)
next
  case (save w w' stringify now)
  have "flagsKept (gameState w') (gameState (saveGame stringify now w'))"
    by (simp add: flagsKept_def saveGame_def Let_def)
  with save.IH show ?case
    by (rule flagsKept_trans)
qed

lemma purchased_blocks:
  assumes "flagsKept g g''" and "i < length (buildings g)"
    and "j < length (upgrades (buildings g ! i))"
    and "purchased (upgrades (buildings g ! i) ! j)"
  shows "buyUpgrade i j g'' = Inr (False, g'')"
  using assms unfolding flagsKept_def buyUpgrade_def by (simp add: Let_def)

text \<open>
  Claim C2. For valid indices, \<open>buyUpgrade\<close> returns normally, and it returns true
  exactly when the upgrade is not purchased yet and \<open>points \<ge> upgrade.cost\<close>; then it
  takes the cost from the points and sets the flag, for good: in the state it leaves
  and in every world that play reaches from there, another attempt on the same
  upgrade returns false and changes nothing, whatever the points are by then;
  otherwise the state is the one it was given.
\<close>

theorem buyUpgrade_once:
  assumes "i < length (buildings (gameState w))"
    and "j < length (upgrades (buildings (gameState w) ! i))"
  shows "\<exists>ok g'. buyUpgrade i j (gameState w) = Inr (ok, g')
    \<and> (ok \<longleftrightarrow> \<not> purchased (upgrades (buildings (gameState w) ! i) ! j)
                 \<and> points (gameState w) \<ge> cost (upgrades (buildings (gameState w) ! i) ! j))
    \<and> (ok \<longrightarrow>
          points g' = points (gameState w) - cost (upgrades (buildings (gameState w) ! i) ! j)
          \<and> purchased (upgrades (buildings g' ! i) ! j)
          \<and> (\<forall>w' p. plays (w\<lparr> gameState := g' \<rparr>) w' \<longrightarrow>
                 buyUpgrade i j ((gameState w')\<lparr> points := p \<rparr>) =
                   Inr (False, (gameState w')\<lparr> points := p \<rparr>)))
    \<and> (\<not> ok \<longrightarrow> g' = gameState w)"
proof (cases "\<not> purchased (upgrades (buildings (gameState w) ! i) ! j)
    \<and> points (gameState w) \<ge> cost (upgrades (buildings (gameState w) ! i) ! j)")
  case False
  with assms have "buyUpgrade i j (gameState w) = Inr (False, gameState w)"
    by (simp add: buyUpgrade_def Let_def)
  with False show ?thesis
    by simp
next
  case True
  define g' where "g' = (gameState w)
    \<lparr> points := points (gameState w) - cost (upgrades (buildings (gameState w) ! i) ! j),
      buildings := (buildings (gameState w))[i := (buildings (gameState w) ! i)\<lparr> upgrades :=
        (upgrades (buildings (gameState w) ! i))
          [j := (upgrades (buildings (gameState w) ! i) ! j)\<lparr> purchased := True \<rparr>] \<rparr>] \<rparr>"
  have bought: "buyUpgrade i j (gameState w) = Inr (True, g')"
    using assms True by (simp add: buyUpgrade_def Let_def g'_def)
  have i': "i < length (buildings g')"
    and j': "j < length (upgrades (buildings g' ! i))"
    and flag: "purchased (upgrades (buildings g' ! i) ! j)"
    and pts: "points g' =
      points (gameState w) - cost (upgrades (buildings (gameState w) ! i) ! j)"
    using assms by (simp_all add: g'_def)
  have "buyUpgrade i j ((gameState w')\<lparr> points := p \<rparr>) = Inr (False, (gameState w')\<lparr> points := p \<rparr>)"
    if "plays (w\<lparr> gameState := g' \<rparr>) w'" for w' p
  proof -
    from that have "flagsKept g' (gameState w')"
      using plays_flagsKept by fastforce
    then have "flagsKept g' ((gameState w')\<lparr> points := p \<rparr>)"
      by (simp add: flagsKept_def)
    then show ?thesis
      using i' j' flag by (rule purchased_blocks)
  qed
  with bought True flag pts show ?thesis
    by (intro exI [of _ True] exI [of _ g']) simp
qed

text \<open>
  The first cursor upgrade costs 100: bought with exactly 100 points, then refused
  after a click and with a million points; and refused with 99 points.
\<close>

theorem buyUpgrade_once_witness:
  "(\<exists>g'. buyUpgrade 0 0 ((initialGameState 0)\<lparr> points := 100 \<rparr>) = Inr (True, g')
     \<and> points g' = 0
     \<and> buyUpgrade 0 0 ((click g')\<lparr> points := 1000000 \<rparr>) =
         Inr (False, (click g')\<lparr> points := 1000000 \<rparr>))
   \<and> buyUpgrade 0 0 ((initialGameState 0)\<lparr> points := 99 \<rparr>) =
       Inr (False, (initialGameState 0)\<lparr> points := 99 \<rparr>)"
proof (intro conjI)
  let ?w = "\<lambda>p. \<lparr> gameState = (initialGameState 0)\<lparr> points := p \<rparr>, lastUpdate = 0,
    saveFile = None \<rparr>"
  have i: "0 < length (buildings (gameState (?w p)))"
    and j: "0 < length (upgrades (buildings (gameState (?w p)) ! 0))"
    and u: "\<not> purchased (upgrades (buildings (gameState (?w p)) ! 0) ! 0)"
      "cost (upgrades (buildings (gameState (?w p)) ! 0) ! 0) = 100"
      "points (gameState (?w p)) = p" for p
    by (simp_all add: fresh_cursor)
  from buyUpgrade_once [OF i j, of 100] u [of 100] obtain g'
    where bought: "buyUpgrade 0 0 (gameState (?w 100)) = Inr (True, g')"
      and pts: "points g' = 0"
      and later: "\<And>w' p. plays ((?w 100)\<lparr> gameState := g' \<rparr>) w' \<Longrightarrow>
        buyUpgrade 0 0 ((gameState w')\<lparr> points := p \<rparr>) =
          Inr (False, (gameState w')\<lparr> points := p \<rparr>)"
    by auto
  have "plays ((?w 100)\<lparr> gameState := g' \<rparr>)
      (((?w 100)\<lparr> gameState := g' \<rparr>)
        \<lparr> gameState := click (gameState ((?w 100)\<lparr> gameState := g' \<rparr>)) \<rparr>)"
    by (rule plays.click) (rule plays.here)
  from later [OF this, of 1000000] bought pts
  show "\<exists>g'. buyUpgrade 0 0 ((initialGameState 0)\<lparr> points := 100 \<rparr>) = Inr (True, g')
     \<and> points g' = 0
     \<and> buyUpgrade 0 0 ((click g')\<lparr> points := 1000000 \<rparr>) =
         Inr (False, (click g')\<lparr> points := 1000000 \<rparr>)"
    by simp
  from buyUpgrade_once [OF i j, of 99] u [of 99]
  show "buyUpgrade 0 0 ((initialGameState 0)\<lparr> points := 99 \<rparr>) =
       Inr (False, (initialGameState 0)\<lparr> points := 99 \<rparr>)"
    by auto
qed

text \<open>
  Claim C3. In every world reached by play, each state-changing operation keeps the
  invariants: a click, a purchase of a building, a purchase of an upgrade and a tick
  whose clock value is not before the previous one never lower \<open>totalPointsEarned\<close>
  and never clear a purchased flag, and after a purchase that committed the points are
  not negative.
\<close>

theorem invariants_preserved:
  assumes "reachable w"
  shows "(totalPointsEarned (click (gameState w)) \<ge> totalPointsEarned (gameState w)
      \<and> flagsKept (gameState w) (click (gameState w)))
    \<and> (\<forall>i ok g'. buyBuilding i (gameState w) = Inr (ok, g') \<longrightarrow>
           (ok \<longrightarrow> 0 \<le> points g') \<and>
           totalPointsEarned g' \<ge> totalPointsEarned (gameState w) \<and>
           flagsKept (gameState w) g')
    \<and> (\<forall>i j ok g'. buyUpgrade i j (gameState w) = Inr (ok, g') \<longrightarrow>
           (ok \<longrightarrow> 0 \<le> points g') \<and>
           totalPointsEarned g' \<ge> totalPointsEarned (gameState w) \<and>
           flagsKept (gameState w) g')
    \<and> (\<forall>now. now \<ge> lastUpdate w \<longrightarrow>
           totalPointsEarned (gameState (gameLoop now w)) \<ge> totalPointsEarned (gameState w) \<and>
           flagsKept (gameState w) (gameState (gameLoop now w)))"
proof (intro conjI)
  have ok: "constantsOK (gameState w)"
    using assms by (rule reachable_constantsOK)
  show "totalPointsEarned (click (gameState w)) \<ge> totalPointsEarned (gameState w)"
    using ok by (simp add: click_def constantsOK_def)
  show "flagsKept (gameState w) (click (gameState w))"
    by (simp add: click_def flagsKept_def)
  show "\<forall>i ok g'. buyBuilding i (gameState w) = Inr (ok, g') \<longrightarrow>
           (ok \<longrightarrow> 0 \<le> points g') \<and>
           totalPointsEarned g' \<ge> totalPointsEarned (gameState w) \<and>
           flagsKept (gameState w) g'"
    using flagsKept_buyBuilding
    by (auto simp: buyBuilding_def Let_def split: if_splits)
  show "\<forall>i j ok g'. buyUpgrade i j (gameState w) = Inr (ok, g') \<longrightarrow>
           (ok \<longrightarrow> 0 \<le> points g') \<and>
           totalPointsEarned g' \<ge> totalPointsEarned (gameState w) \<and>
           flagsKept (gameState w) g'"
    using flagsKept_buyUpgrade
    by (auto simp: buyUpgrade_def Let_def split: if_splits)
  show "\<forall>now. now \<ge> lastUpdate w \<longrightarrow>
           totalPointsEarned (gameState (gameLoop now w)) \<ge> totalPointsEarned (gameState w) \<and>
           flagsKept (gameState w) (gameState (gameLoop now w))"
    using production_nonneg [OF ok]
    by (simp add: gameLoop_def Let_def flagsKept_def)
qed

text \<open>
  A fresh game after a hundred clicks: one more click, the first cursor (15 points),
  the first cursor upgrade (100 points) and a tick one second later.
\<close>

theorem invariants_preserved_witness:
  "reachable
     \<lparr> gameState = (click ^^ 100) (initialGameState 0), lastUpdate = 0, saveFile = None \<rparr>
   \<and> totalPointsEarned (click ((click ^^ 100) (initialGameState 0))) \<ge> 100
   \<and> (\<exists>g'. buyBuilding 0 ((click ^^ 100) (initialGameState 0)) = Inr (True, g')
         \<and> 0 \<le> points g' \<and> totalPointsEarned g' \<ge> 100)
   \<and> (\<exists>g'. buyUpgrade 0 0 ((click ^^ 100) (initialGameState 0)) = Inr (True, g')
         \<and> 0 \<le> points g' \<and> totalPointsEarned g' \<ge> 100)
   \<and> totalPointsEarned (gameState (gameLoop 1000
         \<lparr> gameState = (click ^^ 100) (initialGameState 0), lastUpdate = 0,
           saveFile = None \<rparr>)) \<ge> 100"
proof -
  let ?g = "(click ^^ 100) (initialGameState 0)"
  let ?w = "\<lparr> gameState = ?g, lastUpdate = 0, saveFile = None \<rparr>"
  have r: "reachable ?w"
    by (rule reachable_clicks)
  have total: "totalPointsEarned ?g = 100"
    by (simp add: clicks_fresh)
  define g1 where "g1 = snd (projr (buyBuilding 0 ?g))"
  have b: "buyBuilding 0 ?g = Inr (True, g1)"
    by (simp add: g1_def clicks_fresh buyBuilding_def Let_def fresh_cursor)
  define g2 where "g2 = snd (projr (buyUpgrade 0 0 ?g))"
  have u: "buyUpgrade 0 0 ?g = Inr (True, g2)"
    by (simp add: g2_def clicks_fresh buyUpgrade_def Let_def fresh_cursor)
  note inv = invariants_preserved [OF r]
  from inv have "totalPointsEarned (click ?g) \<ge> 100"
    unfolding total [symmetric] by simp
  moreover from inv b have "0 \<le> points g1 \<and> totalPointsEarned g1 \<ge> 100"
    unfolding total [symmetric] by simp
  moreover from inv u have "0 \<le> points g2 \<and> totalPointsEarned g2 \<ge> 100"
    unfolding total [symmetric] by simp
  moreover from inv have "totalPointsEarned (gameState (gameLoop 1000 ?w)) \<ge> 100"
    unfolding total [symmetric] by simp
  ultimately show ?thesis
    using r b u by blast
qed



subsection \<open>Tick loop\<close>

text \<open>
  Claim C8. One tick adds \<open>totalProduction * elapsed\<close> to the points and to
  \<open>totalPointsEarned\<close>, where the production is that of the state before the tick and
  \<open>elapsed\<close> is the clock difference to the previous tick in seconds, \<open>(now -
  lastUpdate) / 1000\<close>, for every clock value \<open>now\<close>: nothing bounds the time credited.
  The tick then remembers \<open>now\<close>.
\<close>

theorem gameLoop_credit:
  "points (gameState (gameLoop now w)) =
     points (gameState w) + getTotalProduction (gameState w) * ((now - lastUpdate w) / 1000)
   \<and> totalPointsEarned (gameState (gameLoop now w)) =
     totalPointsEarned (gameState w) +
       getTotalProduction (gameState w) * ((now - lastUpdate w) / 1000)
   \<and> lastUpdate (gameLoop now w) = now"
  by (simp add: gameLoop_def Let_def)

subsection \<open>Persistence\<close>



text \<open>
  Claim C5. \<open>loadGame\<close> is all or nothing. With no save file it returns false and the
  world is unchanged; with a file that \<^verbatim>\<open>JSON.parse\<close> rejects it returns false and the
  world is unchanged; and in every case the world after is either the world before or
  the world before with the whole parsed state in place of the game state.
\<close>

theorem loadGame_all_or_nothing:
  "(saveFile w = None \<longrightarrow> loadGame parse w = (False, w))
   \<and> (\<forall>data. saveFile w = Some data \<and> parse data = None \<longrightarrow> loadGame parse w = (False, w))
   \<and> (snd (loadGame parse w) = w
        \<or> (\<exists>data g. saveFile w = Some data \<and> parse data = Some g \<and>
              loadGame parse w = (True, w\<lparr> gameState := g \<rparr>)))"
  by (simp add: loadGame_def split: option.splits)

text \<open>A fresh game with a truncated file, and a fresh game with no file.\<close>

theorem loadGame_all_or_nothing_witness:
  "loadGame (\<lambda>data. None)
     \<lparr> gameState = initialGameState 0, lastUpdate = 0, saveFile = Some ''{'' \<rparr>
   = (False, \<lparr> gameState = initialGameState 0, lastUpdate = 0, saveFile = Some ''{'' \<rparr>)
   \<and> loadGame (\<lambda>data. None)
     \<lparr> gameState = initialGameState 0, lastUpdate = 0, saveFile = None \<rparr>
   = (False, \<lparr> gameState = initialGameState 0, lastUpdate = 0, saveFile = None \<rparr>)"
  using loadGame_all_or_nothing [of
      "\<lparr> gameState = initialGameState 0, lastUpdate = 0, saveFile = Some ''{'' \<rparr>"
      "\<lambda>data. None"]
    loadGame_all_or_nothing [of
      "\<lparr> gameState = initialGameState 0, lastUpdate = 0, saveFile = None \<rparr>" "\<lambda>data. None"]
  by simp

subsection \<open>Formatter\<close>




lemma length_lastDigits [simp]: "length (lastDigits f n) = f"
  by (induction f arbitrary: n) simp_all











end
